theory Spec2Isabelle
  imports Complex_Main "HOL-Library.Sublist" "HOL-Library.Char_ord" "HOL-Library.List_Lexorder"
begin

section \<open>Python values used by lrv\_batch\_analyzer.py\<close>

text \<open>
  A Python \<^verbatim>\<open>str\<close> is modelled as a \<^typ>\<open>string\<close> whose characters are the code
  points below 256 (Latin-1). Code points above 255 are outside the model.
  A Python \<^verbatim>\<open>float\<close> is modelled by its exact real value, or one of the three special
  values; IEEE rounding, overflow and the sign of zero are not modelled.
  An exception that a called function raises is a value \<open>Inl e\<close>.
\<close>

datatype py_error = ValueError | IndexError

datatype pyfloat = Finite real | PosInf | NegInf | NaN

abbreviation apostrophe :: char where "apostrophe \<equiv> CHR 0x27"
abbreviation dquote :: char where "dquote \<equiv> CHR 0x22"

subsection \<open>Character classes\<close>

text \<open>\<^verbatim>\<open>str.isspace\<close>, which is also what \<^verbatim>\<open>\s\<close> matches and what \<^verbatim>\<open>str.strip()\<close> and
  \<^verbatim>\<open>str.split()\<close> remove: for code points below 256 these are 9-13, 28-32, 133 and 160.\<close>

definition py_isspace :: "char \<Rightarrow> bool" where
  "py_isspace c = (c \<in> set [CHR 0x09, CHR 0x0A, CHR 0x0B, CHR 0x0C, CHR 0x0D,
                              CHR 0x1C, CHR 0x1D, CHR 0x1E, CHR 0x1F, CHR 0x20,
                              CHR 0x85, CHR 0xA0])"

text \<open>\<^verbatim>\<open>\d\<close> (Unicode category Nd): below 256 these are the ten ASCII digits.\<close>

definition py_isdigit :: "char \<Rightarrow> bool" where
  "py_isdigit c = (c \<in> set ''0123456789'')"

definition digit_val :: "char \<Rightarrow> nat" where
  "digit_val c = of_char c - 48"

text \<open>\<^verbatim>\<open>int(s)\<close> on a string of digits (Python integers are unbounded).\<close>

definition int_of_digits :: "string \<Rightarrow> nat" where
  "int_of_digits s = foldl (\<lambda>a c. 10 * a + digit_val c) 0 s"

subsection \<open>String methods\<close>

definition py_strip :: "string \<Rightarrow> string" where
  "py_strip s = rev (dropWhile py_isspace (rev (dropWhile py_isspace s)))"

text \<open>\<^verbatim>\<open>sub in s\<close>: substring containment.\<close>

fun py_in :: "string \<Rightarrow> string \<Rightarrow> bool" where
  "py_in sub [] = (sub = [])"
| "py_in sub (c # cs) = (prefix sub (c # cs) \<or> py_in sub cs)"

text \<open>\<^verbatim>\<open>s.split(sep, 1)[1]\<close>: the text after the first separator; \<^verbatim>\<open>IndexError\<close> when the
  separator does not occur, because the list then has one element only.\<close>

definition split1_snd :: "char \<Rightarrow> string \<Rightarrow> py_error + string" where
  "split1_snd sep s =
     (case dropWhile (\<lambda>c. c \<noteq> sep) s of
        [] \<Rightarrow> Inl IndexError
      | _ # r \<Rightarrow> Inr r)"

text \<open>\<^verbatim>\<open>s.split()[0]\<close>: the first whitespace-separated token; \<^verbatim>\<open>IndexError\<close> when there is
  none.\<close>

definition split_ws_first :: "string \<Rightarrow> py_error + string" where
  "split_ws_first s =
     (case dropWhile py_isspace s of
        [] \<Rightarrow> Inl IndexError
      | t \<Rightarrow> Inr (takeWhile (\<lambda>c. \<not> py_isspace c) t))"

text \<open>\<^verbatim>\<open>s.split(sep)\<close> for a one-character separator: never empty.\<close>

fun py_split :: "char \<Rightarrow> string \<Rightarrow> string list" where
  "py_split sep [] = [[]]"
| "py_split sep (c # cs) =
     (if c = sep then [] # py_split sep cs
      else (case py_split sep cs of
              w # ws \<Rightarrow> (c # w) # ws
            | [] \<Rightarrow> [[c]]))"

subsection \<open>\<^verbatim>\<open>float(s)\<close>\<close>

text \<open>
  CPython's \<^verbatim>\<open>float\<close> of a string: surrounding whitespace is removed (here the ASCII set
  9-13 and 32, and the other whitespace of the model, 133 and 160), single underscores
  between digits are dropped, and the rest is \<^verbatim>\<open>[sign] (number [exponent] | inf | infinity | nan)\<close>,
  with \<^verbatim>\<open>number ::= [digits] "." digits | digits ["."]\<close>. Anything else is \<^verbatim>\<open>ValueError\<close>,
  here \<open>None\<close>.
\<close>

definition float_isspace :: "char \<Rightarrow> bool" where
  "float_isspace c = (c \<in> set [CHR 0x09, CHR 0x0A, CHR 0x0B, CHR 0x0C, CHR 0x0D, CHR 0x20,
                                 CHR 0x85, CHR 0xA0])"

definition float_strip :: "string \<Rightarrow> string" where
  "float_strip s = rev (dropWhile float_isspace (rev (dropWhile float_isspace s)))"

text \<open>The underscore check: one is allowed only directly after a digit and directly before
  a digit. The first argument is the previous character.\<close>

fun drop_underscores :: "char \<Rightarrow> string \<Rightarrow> string option" where
  "drop_underscores prev [] = (if prev = CHR ''_'' then None else Some [])"
| "drop_underscores prev (c # cs) =
     (if c = CHR ''_'' then
        (if py_isdigit prev then drop_underscores c cs else None)
      else if prev = CHR ''_'' \<and> \<not> py_isdigit c then None
      else map_option ((#) c) (drop_underscores c cs))"

text \<open>Lower case of the ASCII letters; every other character of the model that
  \<^verbatim>\<open>str.lower\<close> changes is mapped to a non-ASCII character, which no comparison below
  distinguishes from the original.\<close>

definition ascii_lower :: "char \<Rightarrow> char" where
  "ascii_lower c =
     (case map_of (zip ''ABCDEFGHIJKLMNOPQRSTUVWXYZ'' ''abcdefghijklmnopqrstuvwxyz'') c of
        Some l \<Rightarrow> l
      | None \<Rightarrow> c)"

text \<open>The value of \<^verbatim>\<open>[digits] [. digits]\<close> with at least one digit; the remaining text is
  returned with it.\<close>

definition float_number :: "string \<Rightarrow> (real \<times> string) option" where
  "float_number s =
     (let ip = takeWhile py_isdigit s;
          r = dropWhile py_isdigit s;
          fp = (case r of c # r' \<Rightarrow> if c = CHR ''.'' then takeWhile py_isdigit r' else [] | [] \<Rightarrow> []);
          r2 = (case r of c # r' \<Rightarrow> if c = CHR ''.'' then dropWhile py_isdigit r' else r | [] \<Rightarrow> [])
      in if ip = [] \<and> fp = [] then None
         else Some (real (int_of_digits ip) + real (int_of_digits fp) / 10 ^ length fp, r2))"

text \<open>The exponent part: empty, or \<^verbatim>\<open>e\<close>/\<^verbatim>\<open>E\<close>, an optional sign and at least one digit, up
  to the end of the string. The result is the factor to multiply with.\<close>

definition float_exponent :: "string \<Rightarrow> real option" where
  "float_exponent s =
     (case s of
        [] \<Rightarrow> Some 1
      | c # r \<Rightarrow>
          if c = CHR ''e'' \<or> c = CHR ''E'' then
            (let neg = (case r of d # _ \<Rightarrow> d = CHR ''-'' | [] \<Rightarrow> False);
                 ds = (case r of d # r' \<Rightarrow> if d = CHR ''-'' \<or> d = CHR ''+'' then r' else r | [] \<Rightarrow> [])
             in if ds \<noteq> [] \<and> list_all py_isdigit ds then
                  Some (if neg then 1 / 10 ^ int_of_digits ds else 10 ^ int_of_digits ds)
                else None)
          else None)"

definition float_unsigned :: "string \<Rightarrow> pyfloat option" where
  "float_unsigned s =
     (if map ascii_lower s = ''inf'' \<or> map ascii_lower s = ''infinity'' then Some PosInf
      else if map ascii_lower s = ''nan'' then Some NaN
      else (case float_number s of
              None \<Rightarrow> None
            | Some (x, r) \<Rightarrow>
                (case float_exponent r of
                   None \<Rightarrow> None
                 | Some f \<Rightarrow> Some (Finite (x * f)))))"

fun float_neg :: "pyfloat \<Rightarrow> pyfloat" where
  "float_neg (Finite x) = Finite (- x)"
| "float_neg PosInf = NegInf"
| "float_neg NegInf = PosInf"
| "float_neg NaN = NaN"

definition py_float :: "string \<Rightarrow> pyfloat option" where
  "py_float s =
     (case drop_underscores (CHR 0x00) (float_strip s) of
        None \<Rightarrow> None
      | Some t \<Rightarrow>
          (case t of
             [] \<Rightarrow> None
           | c # r \<Rightarrow>
               if c = CHR ''-'' then map_option float_neg (float_unsigned r)
               else if c = CHR ''+'' then float_unsigned r
               else float_unsigned t))"

section \<open>parse\_coordinate\<close>

text \<open>
  The pattern \<^verbatim>\<open>(\d+)\s*deg\s*(\d+)\'\s*([\d.]+)"\s*([NSEW])\<close>, matched by \<^verbatim>\<open>re.match\<close> at the
  start of the string. Each repetition is followed by an element that none of its own
  characters can begin, so the longest repetition is the only one that can lead to a match
  and the matcher is written without backtracking. The result holds the four groups and
  the text after the match.
\<close>

definition take_while1 :: "(char \<Rightarrow> bool) \<Rightarrow> string \<Rightarrow> (string \<times> string) option" where
  "take_while1 P s = (if takeWhile P s = [] then None else Some (takeWhile P s, dropWhile P s))"

definition skip_ws :: "string \<Rightarrow> string" where
  "skip_ws s = dropWhile py_isspace s"

definition expect :: "string \<Rightarrow> string \<Rightarrow> string option" where
  "expect lit s = (if prefix lit s then Some (drop (length lit) s) else None)"

definition sec_char :: "char \<Rightarrow> bool" where
  "sec_char c = (py_isdigit c \<or> c = CHR ''.'')"

definition coord_match :: "string \<Rightarrow> (string \<times> string \<times> string \<times> char \<times> string) option" where
  "coord_match s =
     (case take_while1 py_isdigit s of
        None \<Rightarrow> None
      | Some (d, r1) \<Rightarrow>
     (case expect ''deg'' (skip_ws r1) of
        None \<Rightarrow> None
      | Some r2 \<Rightarrow>
     (case take_while1 py_isdigit (skip_ws r2) of
        None \<Rightarrow> None
      | Some (m, r3) \<Rightarrow>
     (case expect [apostrophe] r3 of
        None \<Rightarrow> None
      | Some r4 \<Rightarrow>
     (case take_while1 sec_char (skip_ws r4) of
        None \<Rightarrow> None
      | Some (sec, r5) \<Rightarrow>
     (case expect [dquote] r5 of
        None \<Rightarrow> None
      | Some r6 \<Rightarrow>
     (case skip_ws r6 of
        [] \<Rightarrow> None
      | h # rest \<Rightarrow>
          if h \<in> set ''NSEW'' then Some (d, m, sec, h, rest) else None)))))))"

text \<open>\<^verbatim>\<open>float(match.group(3))\<close> is not guarded in the source: its \<^verbatim>\<open>ValueError\<close> leaves
  the function.\<close>

definition parse_coordinate :: "string \<Rightarrow> py_error + pyfloat" where
  "parse_coordinate coord_str =
     (case coord_match coord_str of
        Some (d, m, sec, direction, rest) \<Rightarrow>
          (let degrees = int_of_digits d;
               minutes = int_of_digits m
           in case py_float sec of
                None \<Rightarrow> Inl ValueError
              | Some seconds \<Rightarrow>
                  (case seconds of
                     Finite s \<Rightarrow>
                       (let decimal = real degrees + real minutes / 60 + s / 3600
                        in if direction \<in> set ''SW'' then Inr (Finite (- decimal))
                           else Inr (Finite decimal))
                   | _ \<Rightarrow> Inl ValueError))
      | None \<Rightarrow> Inr (Finite 0))"

section \<open>parse\_gps\_time\<close>

record py_datetime =
  year :: nat
  month :: nat
  day :: nat
  hour :: nat
  minute :: nat
  second :: nat

subsection \<open>\<^verbatim>\<open>datetime.strptime(s, '%Y:%m:%d %H:%M:%S')\<close>\<close>

text \<open>
  The library compiles the format to the pattern
  \<^verbatim>\<open>(\d\d\d\d):(1[0-2]|0[1-9]|[1-9]):(3[0-1]|[1-2]\d|0[1-9]|[1-9]| [1-9])\s+\<close>
  \<^verbatim>\<open>(2[0-3]|[0-1]\d|\d):([0-5]\d|\d):(6[0-1]|[0-5]\d|\d)\<close>,
  matches it at the start of the text, raises \<^verbatim>\<open>ValueError\<close> when it does not match or
  when text remains after the match, and then builds the date, which raises
  \<^verbatim>\<open>ValueError\<close> for year 0, a day the month does not have, or a second above 59.
  In each alternation a two-character alternative precedes the one-character ones and
  the element after the alternation cannot begin with a digit, so the first alternative
  that matches is the only one that can lead to a match.
\<close>

definition two_chars :: "string \<Rightarrow> string \<Rightarrow> string \<Rightarrow> (nat \<times> string) option" where
  "two_chars as bs s =
     (case s of
        a # b # r \<Rightarrow> if a \<in> set as \<and> b \<in> set bs then Some (10 * digit_val a + digit_val b, r) else None
      | _ \<Rightarrow> None)"

definition one_char :: "string \<Rightarrow> string \<Rightarrow> (nat \<times> string) option" where
  "one_char as s =
     (case s of
        a # r \<Rightarrow> if a \<in> set as then Some (digit_val a, r) else None
      | [] \<Rightarrow> None)"

fun first_match :: "'a option list \<Rightarrow> 'a option" where
  "first_match [] = None"
| "first_match (None # xs) = first_match xs"
| "first_match (Some x # xs) = Some x"

definition re_Y :: "string \<Rightarrow> (nat \<times> string) option" where
  "re_Y s =
     (case s of
        a # b # c # d # r \<Rightarrow>
          if list_all py_isdigit [a, b, c, d] then Some (int_of_digits [a, b, c, d], r) else None
      | _ \<Rightarrow> None)"

definition re_m :: "string \<Rightarrow> (nat \<times> string) option" where
  "re_m s = first_match [two_chars ''1'' ''012'' s, two_chars ''0'' ''123456789'' s,
                         one_char ''123456789'' s]"

definition re_d :: "string \<Rightarrow> (nat \<times> string) option" where
  "re_d s = first_match [two_chars ''3'' ''01'' s, two_chars ''12'' ''0123456789'' s,
                         two_chars ''0'' ''123456789'' s, one_char ''123456789'' s,
                         (case s of a # r \<Rightarrow> if a = CHR '' '' then one_char ''123456789'' r else None
                                  | [] \<Rightarrow> None)]"

definition re_H :: "string \<Rightarrow> (nat \<times> string) option" where
  "re_H s = first_match [two_chars ''2'' ''0123'' s, two_chars ''01'' ''0123456789'' s,
                         one_char ''0123456789'' s]"

definition re_M :: "string \<Rightarrow> (nat \<times> string) option" where
  "re_M s = first_match [two_chars ''012345'' ''0123456789'' s, one_char ''0123456789'' s]"

definition re_S :: "string \<Rightarrow> (nat \<times> string) option" where
  "re_S s = first_match [two_chars ''6'' ''01'' s, two_chars ''012345'' ''0123456789'' s,
                         one_char ''0123456789'' s]"

definition strptime_match ::
  "string \<Rightarrow> (nat \<times> nat \<times> nat \<times> nat \<times> nat \<times> nat \<times> string) option" where
  "strptime_match s =
     (case re_Y s of None \<Rightarrow> None | Some (Y, r1) \<Rightarrow>
     (case expect '':'' r1 of None \<Rightarrow> None | Some r2 \<Rightarrow>
     (case re_m r2 of None \<Rightarrow> None | Some (m, r3) \<Rightarrow>
     (case expect '':'' r3 of None \<Rightarrow> None | Some r4 \<Rightarrow>
     (case re_d r4 of None \<Rightarrow> None | Some (d, r5) \<Rightarrow>
     (case take_while1 py_isspace r5 of None \<Rightarrow> None | Some (ws, r6) \<Rightarrow>
     (case re_H r6 of None \<Rightarrow> None | Some (H, r7) \<Rightarrow>
     (case expect '':'' r7 of None \<Rightarrow> None | Some r8 \<Rightarrow>
     (case re_M r8 of None \<Rightarrow> None | Some (M, r9) \<Rightarrow>
     (case expect '':'' r9 of None \<Rightarrow> None | Some r10 \<Rightarrow>
     (case re_S r10 of None \<Rightarrow> None | Some (S, rest) \<Rightarrow>
        Some (Y, m, d, H, M, S, rest))))))))))))"

definition is_leap :: "nat \<Rightarrow> bool" where
  "is_leap y = (y mod 4 = 0 \<and> (y mod 100 \<noteq> 0 \<or> y mod 400 = 0))"

definition days_in_month :: "nat \<Rightarrow> nat \<Rightarrow> nat" where
  "days_in_month y m =
     (if m = 2 then (if is_leap y then 29 else 28)
      else if m \<in> {4, 6, 9, 11} then 30 else 31)"

definition strptime :: "string \<Rightarrow> py_error + py_datetime" where
  "strptime s =
     (case strptime_match s of
        None \<Rightarrow> Inl ValueError
      | Some (Y, m, d, H, M, S, rest) \<Rightarrow>
          if rest \<noteq> [] then Inl ValueError
          else if Y < 1 \<or> days_in_month Y m < d \<or> 59 < S then Inl ValueError
          else Inr \<lparr>year = Y, month = m, day = d, hour = H, minute = M, second = S\<rparr>)"

subsection \<open>The function\<close>

text \<open>The bare \<^verbatim>\<open>except\<close> turns every exception of the body into \<^verbatim>\<open>None\<close>.\<close>

definition parse_gps_time :: "string \<Rightarrow> py_datetime option" where
  "parse_gps_time time_str =
     (let clean_time = py_strip (filter (\<lambda>c. c \<noteq> CHR ''Z'') time_str);
          clean_time = (if CHR ''.'' \<in> set clean_time
                        then takeWhile (\<lambda>c. c \<noteq> CHR ''.'') clean_time
                        else clean_time)
      in case strptime clean_time of
           Inl e \<Rightarrow> None
         | Inr t \<Rightarrow> Some t)"

section \<open>extract\_gps\_data\<close>

text \<open>
  A point is a Python dict with the six keys below. The dicts are mutable objects that the
  result list and the variable \<^verbatim>\<open>current_point\<close> refer to, so the model keeps them in a
  store: \<open>heap\<close> lists the dicts created so far and a reference is an index into it.
  \<^verbatim>\<open>current_point\<close> is \<open>None\<close> while it still is the empty dict \<^verbatim>\<open>{}\<close> of line 73 (which is
  falsy and is never written to) and \<open>Some a\<close> once it refers to a created dict; every
  created dict has the key \<^verbatim>\<open>'datetime'\<close>, so the test
  \<^verbatim>\<open>current_point and 'datetime' in current_point\<close> is \<open>current_point \<noteq> None\<close>.
\<close>

record gps_point =
  datetime :: py_datetime
  latitude :: pyfloat
  longitude :: pyfloat
  altitude :: pyfloat
  speed :: pyfloat
  track :: pyfloat

record seg_state =
  heap :: "gps_point list"
  gps_data :: "nat list"
  current_point :: "nat option"

definition init_state :: seg_state where
  "init_state = \<lparr>heap = [], gps_data = [], current_point = None\<rparr>"

definition new_point :: "py_datetime \<Rightarrow> gps_point" where
  "new_point t = \<lparr>datetime = t, latitude = Finite 0, longitude = Finite 0,
                   altitude = Finite 0, speed = Finite 0, track = Finite 0\<rparr>"

subsection \<open>The value a marker line carries\<close>

text \<open>\<^verbatim>\<open>parse_gps_time(line.split(':', 1)[1].strip())\<close>, not guarded.\<close>

definition time_of_line :: "string \<Rightarrow> py_error + py_datetime option" where
  "time_of_line line =
     (case split1_snd (CHR '':'') line of
        Inl e \<Rightarrow> Inl e
      | Inr v \<Rightarrow> Inr (parse_gps_time (py_strip v)))"

text \<open>\<^verbatim>\<open>parse_coordinate(line.split(':', 1)[1].strip())\<close>, not guarded.\<close>

definition coordinate_of_line :: "string \<Rightarrow> py_error + pyfloat" where
  "coordinate_of_line line =
     (case split1_snd (CHR '':'') line of
        Inl e \<Rightarrow> Inl e
      | Inr v \<Rightarrow> parse_coordinate (py_strip v))"

text \<open>\<^verbatim>\<open>float(line.split(':', 1)[1].strip().split()[0])\<close> inside \<^verbatim>\<open>try\<close>, with \<^verbatim>\<open>0.0\<close> in the
  \<^verbatim>\<open>except\<close> branch.\<close>

definition altitude_of_line :: "string \<Rightarrow> pyfloat" where
  "altitude_of_line line =
     (case split1_snd (CHR '':'') line of
        Inl e \<Rightarrow> Finite 0
      | Inr v \<Rightarrow>
          (case split_ws_first (py_strip v) of
             Inl e \<Rightarrow> Finite 0
           | Inr tok \<Rightarrow> (case py_float tok of None \<Rightarrow> Finite 0 | Some x \<Rightarrow> x)))"

text \<open>\<^verbatim>\<open>float(line.split(':', 1)[1].strip())\<close> inside \<^verbatim>\<open>try\<close>, with \<^verbatim>\<open>0.0\<close> in the \<^verbatim>\<open>except\<close>
  branch: the speed and the track lines.\<close>

definition float_of_line :: "string \<Rightarrow> pyfloat" where
  "float_of_line line =
     (case split1_snd (CHR '':'') line of
        Inl e \<Rightarrow> Finite 0
      | Inr v \<Rightarrow> (case py_float (py_strip v) of None \<Rightarrow> Finite 0 | Some x \<Rightarrow> x))"

subsection \<open>One iteration of the loop over the lines\<close>

definition update_current :: "seg_state \<Rightarrow> nat \<Rightarrow> (gps_point \<Rightarrow> gps_point) \<Rightarrow> seg_state" where
  "update_current st a f = st\<lparr>heap := (heap st)[a := f (heap st ! a)]\<rparr>"

definition append_current :: "seg_state \<Rightarrow> seg_state" where
  "append_current st =
     (case current_point st of
        Some a \<Rightarrow> st\<lparr>gps_data := gps_data st @ [a]\<rparr>
      | None \<Rightarrow> st)"

definition seg_line :: "seg_state \<Rightarrow> string \<Rightarrow> py_error + seg_state" where
  "seg_line st line =
     (if py_strip line = [] then Inr st
      else if py_in ''GPS Date/Time'' line then
        (let st1 = append_current st
         in case time_of_line line of
              Inl e \<Rightarrow> Inl e
            | Inr None \<Rightarrow> Inr st1
            | Inr (Some parsed_time) \<Rightarrow>
                Inr (st1\<lparr>heap := heap st1 @ [new_point parsed_time],
                         current_point := Some (length (heap st1))\<rparr>))
      else if py_in ''GPS Latitude'' line then
        (case current_point st of
           None \<Rightarrow> Inr st
         | Some a \<Rightarrow>
             (case coordinate_of_line line of
                Inl e \<Rightarrow> Inl e
              | Inr v \<Rightarrow> Inr (update_current st a (\<lambda>p. p\<lparr>latitude := v\<rparr>))))
      else if py_in ''GPS Longitude'' line then
        (case current_point st of
           None \<Rightarrow> Inr st
         | Some a \<Rightarrow>
             (case coordinate_of_line line of
                Inl e \<Rightarrow> Inl e
              | Inr v \<Rightarrow> Inr (update_current st a (\<lambda>p. p\<lparr>longitude := v\<rparr>))))
      else if py_in ''GPS Altitude'' line then
        (case current_point st of
           None \<Rightarrow> Inr st
         | Some a \<Rightarrow> Inr (update_current st a (\<lambda>p. p\<lparr>altitude := altitude_of_line line\<rparr>)))
      else if py_in ''GPS Speed'' line then
        (case current_point st of
           None \<Rightarrow> Inr st
         | Some a \<Rightarrow> Inr (update_current st a (\<lambda>p. p\<lparr>speed := float_of_line line\<rparr>)))
      else if py_in ''GPS Track'' line then
        (case current_point st of
           None \<Rightarrow> Inr st
         | Some a \<Rightarrow> Inr (update_current st a (\<lambda>p. p\<lparr>track := float_of_line line\<rparr>)))
      else Inr st)"

fun seg_loop :: "seg_state \<Rightarrow> string list \<Rightarrow> py_error + seg_state" where
  "seg_loop st [] = Inr st"
| "seg_loop st (line # lines) =
     (case seg_line st line of
        Inl e \<Rightarrow> Inl e
      | Inr st' \<Rightarrow> seg_loop st' lines)"

text \<open>Lines 72 to 128: the loop from the empty list and the empty dict, then the last
  point is saved. The result is the final store with the list of references.\<close>

definition segmenter :: "string list \<Rightarrow> py_error + seg_state" where
  "segmenter lines =
     (case seg_loop init_state lines of
        Inl e \<Rightarrow> Inl e
      | Inr st \<Rightarrow> Inr (append_current st))"

text \<open>The dicts that the returned list shows, in order.\<close>

definition points_of :: "seg_state \<Rightarrow> gps_point list" where
  "points_of st = map (\<lambda>a. heap st ! a) (gps_data st)"

subsection \<open>The function\<close>

text \<open>What \<^verbatim>\<open>subprocess.run\<close> does for a file is a parameter: it times out, fails with
  another exception, or completes with a return code, standard output and standard error.
  The printed lines are kept as values of \<open>message\<close>.\<close>

datatype run_result = TimeoutExpired | OtherException | Completed int string string

datatype message =
    MsgAnalyzing string
  | MsgToolError string string
  | MsgExtracted nat
  | MsgTimeout string
  | MsgException string
  | MsgUsage
  | MsgExample
  | MsgFolderNotFound string
  | MsgNoExiftool
  | MsgBrewHint
  | MsgSingleFile string
  | MsgSearching string
  | MsgNoLrvFiles
  | MsgFound nat
  | MsgCsvOutput string
  | MsgTotalPoints nat
  | MsgDone
  | MsgProcessed nat nat
  | MsgOutputFile string
  | MsgNoGpsData

text \<open>\<^verbatim>\<open>os.path.basename\<close>: the text after the last slash.\<close>

definition basename :: "string \<Rightarrow> string" where
  "basename p = rev (takeWhile (\<lambda>c. c \<noteq> CHR ''/'') (rev p))"

definition stdout_lines :: "string \<Rightarrow> string list" where
  "stdout_lines out = py_split (CHR 0x0A) (py_strip out)"

definition extract_gps_data :: "(string \<Rightarrow> run_result) \<Rightarrow> string \<Rightarrow> message list \<times> gps_point list" where
  "extract_gps_data run lrv_file_path =
     (case run lrv_file_path of
        TimeoutExpired \<Rightarrow> ([MsgAnalyzing (basename lrv_file_path), MsgTimeout lrv_file_path], [])
      | OtherException \<Rightarrow> ([MsgAnalyzing (basename lrv_file_path), MsgException lrv_file_path], [])
      | Completed returncode out err \<Rightarrow>
          if returncode \<noteq> 0 then
            ([MsgAnalyzing (basename lrv_file_path), MsgToolError lrv_file_path err], [])
          else
            (case segmenter (stdout_lines out) of
               Inl e \<Rightarrow> ([MsgAnalyzing (basename lrv_file_path), MsgException lrv_file_path], [])
             | Inr st \<Rightarrow>
                 ([MsgAnalyzing (basename lrv_file_path), MsgExtracted (length (gps_data st))],
                  points_of st)))"

section \<open>find\_lrv\_files, write\_csv and main\<close>

text \<open>The file system and the command line are parameters of the run.\<close>

record env =
  argv :: "string list"
  path_exists :: "string \<Rightarrow> bool"
  exiftool_available :: bool
  path_isfile :: "string \<Rightarrow> bool"
  os_walk :: "string \<Rightarrow> (string \<times> string list) list"
  run_exiftool :: "string \<Rightarrow> run_result"

text \<open>\<^verbatim>\<open>name.lower().endswith('.lrv')\<close>\<close>

definition ends_with_lrv :: "string \<Rightarrow> bool" where
  "ends_with_lrv name = suffix ''.lrv'' (map ascii_lower name)"

text \<open>\<^verbatim>\<open>os.path.join(root, file)\<close> for a file name without a slash (\<open>dir\<close> is the source's \<^verbatim>\<open>root\<close>).\<close>

definition path_join :: "string \<Rightarrow> string \<Rightarrow> string" where
  "path_join dir file =
     (if dir = [] \<or> last dir = CHR ''/'' then dir @ file else dir @ ''/'' @ file)"

definition find_lrv_files :: "env \<Rightarrow> string \<Rightarrow> string list" where
  "find_lrv_files e folder_path =
     sort (concat (map (\<lambda>(dir, files). map (path_join dir) (filter ends_with_lrv files))
                       (os_walk e folder_path)))"

text \<open>The rows that \<^verbatim>\<open>write_csv\<close> writes after the header, before formatting: the file name
  and the point. The formatting of the numbers is not modelled.\<close>

record file_data =
  filename :: string
  gps_points :: "gps_point list"

definition csv_rows :: "file_data list \<Rightarrow> (string \<times> gps_point) list" where
  "csv_rows all_data = concat (map (\<lambda>fd. map (\<lambda>p. (filename fd, p)) (gps_points fd)) all_data)"

text \<open>The loop of lines 225 to 234 over the files found: the printed lines and
  \<^verbatim>\<open>all_data\<close>.\<close>

fun process_files :: "env \<Rightarrow> string list \<Rightarrow> message list \<times> file_data list" where
  "process_files e [] = ([], [])"
| "process_files e (lrv_file # rest) =
     (let (msgs, pts) = extract_gps_data (run_exiftool e) lrv_file;
          (msgs', all_data) = process_files e rest
      in (msgs @ msgs',
          (if pts \<noteq> [] then [\<lparr>filename = basename lrv_file, gps_points = pts\<rparr>] else []) @ all_data))"

text \<open>The result of a run: what was printed, the CSV file written (its name and rows) if
  any, and the exit status of the process: 1 after \<^verbatim>\<open>sys.exit(1)\<close>, 0 when \<^verbatim>\<open>main\<close>
  returns.\<close>

record outcome =
  printed :: "message list"
  csv_written :: "(string \<times> (string \<times> gps_point) list) option"
  exit_status :: nat

definition main :: "env \<Rightarrow> outcome" where
  "main e =
     (if length (argv e) < 2 then
        \<lparr>printed = [MsgUsage, MsgExample], csv_written = None, exit_status = 1\<rparr>
      else
        (let folder_path = argv e ! 1;
             output_file = (if 2 < length (argv e) then argv e ! 2 else ''lrv_gps_data.csv'')
         in if \<not> path_exists e folder_path then
              \<lparr>printed = [MsgFolderNotFound folder_path], csv_written = None, exit_status = 1\<rparr>
            else if \<not> exiftool_available e then
              \<lparr>printed = [MsgNoExiftool, MsgBrewHint], csv_written = None, exit_status = 1\<rparr>
            else
              (let single = (path_isfile e folder_path \<and> ends_with_lrv folder_path);
                   msg1 = (if single then MsgSingleFile folder_path else MsgSearching folder_path);
                   lrv_files = (if single then [folder_path] else find_lrv_files e folder_path)
               in if lrv_files = [] then
                    \<lparr>printed = [msg1, MsgNoLrvFiles], csv_written = None, exit_status = 1\<rparr>
                  else
                    (let (msgs, all_data) = process_files e lrv_files
                     in if all_data \<noteq> [] then
                          \<lparr>printed = [msg1, MsgFound (length lrv_files)] @ msgs @
                                     [MsgCsvOutput output_file,
                                      MsgTotalPoints (length (csv_rows all_data)),
                                      MsgDone,
                                      MsgProcessed (length all_data) (length lrv_files),
                                      MsgOutputFile output_file],
                           csv_written = Some (output_file, csv_rows all_data),
                           exit_status = 0\<rparr>
                        else
                          \<lparr>printed = [msg1, MsgFound (length lrv_files)] @ msgs @ [MsgNoGpsData],
                           csv_written = None,
                           exit_status = 0\<rparr>))))"

section \<open>Forms of input that the properties name\<close>

text \<open>A text has the shape of a template when it has the template's length, a digit
  wherever the template has \<^verbatim>\<open>d\<close> and the template's own character elsewhere. The
  timestamps of the tool have the shape \<^verbatim>\<open>YYYY:MM:DD HH:MM:SS\<close>, followed by an optional
  fraction and \<^verbatim>\<open>Z\<close>.\<close>

fun shape :: "string \<Rightarrow> string \<Rightarrow> bool" where
  "shape [] [] = True"
| "shape (t # ts) (c # cs) = ((if t = CHR ''d'' then py_isdigit c else c = t) \<and> shape ts cs)"
| "shape _ _ = False"

definition timestamp_base :: "string \<Rightarrow> bool" where
  "timestamp_base b = shape ''dddd:dd:dd dd:dd:dd'' b"

text \<open>The branch of the loop body that a line takes: the tests of lines 76 to 118 in
  their order.\<close>

datatype line_kind =
  Blank | DateTimeLine | LatitudeLine | LongitudeLine | AltitudeLine | SpeedLine | TrackLine
  | OtherLine

definition kind_of :: "string \<Rightarrow> line_kind" where
  "kind_of line =
     (if py_strip line = [] then Blank
      else if py_in ''GPS Date/Time'' line then DateTimeLine
      else if py_in ''GPS Latitude'' line then LatitudeLine
      else if py_in ''GPS Longitude'' line then LongitudeLine
      else if py_in ''GPS Altitude'' line then AltitudeLine
      else if py_in ''GPS Speed'' line then SpeedLine
      else if py_in ''GPS Track'' line then TrackLine
      else OtherLine)"

text \<open>What the five field branches write into the dict that \<^verbatim>\<open>current_point\<close> refers to,
  as a function on the dict's contents; the other branches do not write to it. Lemma
  \<open>seg_line_field\<close> below relates it to \<open>seg_line\<close>.\<close>

definition apply_field :: "string \<Rightarrow> gps_point \<Rightarrow> py_error + gps_point" where
  "apply_field line p =
     (case kind_of line of
        LatitudeLine \<Rightarrow>
          (case coordinate_of_line line of Inl e \<Rightarrow> Inl e | Inr v \<Rightarrow> Inr (p\<lparr>latitude := v\<rparr>))
      | LongitudeLine \<Rightarrow>
          (case coordinate_of_line line of Inl e \<Rightarrow> Inl e | Inr v \<Rightarrow> Inr (p\<lparr>longitude := v\<rparr>))
      | AltitudeLine \<Rightarrow> Inr (p\<lparr>altitude := altitude_of_line line\<rparr>)
      | SpeedLine \<Rightarrow> Inr (p\<lparr>speed := float_of_line line\<rparr>)
      | TrackLine \<Rightarrow> Inr (p\<lparr>track := float_of_line line\<rparr>)
      | _ \<Rightarrow> Inr p)"

fun apply_fields :: "string list \<Rightarrow> gps_point \<Rightarrow> py_error + gps_point" where
  "apply_fields [] p = Inr p"
| "apply_fields (line # lines) p =
     (case apply_field line p of
        Inl e \<Rightarrow> Inl e
      | Inr p' \<Rightarrow> apply_fields lines p')"

text \<open>The lines of a list that take a given branch, in order.\<close>

definition lines_of_kind :: "line_kind \<Rightarrow> string list \<Rightarrow> string list" where
  "lines_of_kind k lines = filter (\<lambda>l. kind_of l = k) lines"


text \<open>The files that \<^verbatim>\<open>main\<close> processes (lines 209 to 214), for a command line with a
  path argument.\<close>

definition candidate_files :: "env \<Rightarrow> string list" where
  "candidate_files e =
     (if path_isfile e (argv e ! 1) \<and> ends_with_lrv (argv e ! 1) then [argv e ! 1]
      else find_lrv_files e (argv e ! 1))"

text \<open>A reference held by \<^verbatim>\<open>current_point\<close> is an index of the store.\<close>

definition wf_state :: "seg_state \<Rightarrow> bool" where
  "wf_state st = (\<forall>a. current_point st = Some a \<longrightarrow> a < length (heap st))"

section \<open>Inputs used below\<close>

text \<open>The coordinate of the source's comment, \<^verbatim>\<open>35 deg 37' 35.50" N\<close>, and one whose
  seconds are not a number.\<close>

definition coord_example :: string where
  "coord_example = ''35 deg 37'' @ [apostrophe] @ '' 35.50'' @ [dquote] @ '' N''"

definition coord_bad_seconds :: string where
  "coord_bad_seconds = ''35 deg 37'' @ [apostrophe] @ '' 1.2.3'' @ [dquote] @ '' N''"

text \<open>A run on a folder with one LRV file whose metadata has no GPS line.\<close>

definition env_no_gps :: env where
  "env_no_gps =
     \<lparr>argv = [''lrv_batch_analyzer.py'', ''/d''],
      path_exists = (\<lambda>p. True),
      exiftool_available = True,
      path_isfile = (\<lambda>p. False),
      os_walk = (\<lambda>p. [(''/d'', [''a.LRV'', ''notes.txt''])]),
      run_exiftool = (\<lambda>p. Completed 0 ''File Name : a.LRV'' [])\<rparr>"

text \<open>Tool output with a well-formed first segment; the second text adds a segment whose
  latitude has the seconds \<^verbatim>\<open>1.2.3\<close>, the third a marker line without a colon.\<close>

definition output_good :: string where
  "output_good =
     ''GPS Date/Time : 2025:06:30 02:13:56Z'' @ [CHR 0x0A] @
     ''GPS Latitude : '' @ coord_example"

definition output_bad_seconds :: string where
  "output_bad_seconds =
     output_good @ [CHR 0x0A] @
     ''GPS Date/Time : 2025:06:30 02:13:57Z'' @ [CHR 0x0A] @
     ''GPS Latitude : '' @ coord_bad_seconds"

definition output_no_colon :: string where
  "output_no_colon = output_good @ [CHR 0x0A] @ ''GPS Date/Time''"

definition time_example :: py_datetime where
  "time_example = \<lparr>year = 2025, month = 6, day = 30, hour = 2, minute = 13, second = 56\<rparr>"

text \<open>Lines of a tool output with two segments, an unparsable time, and the points and
  the state they lead to.\<close>

definition time_line_a :: string where "time_line_a = ''GPS Date/Time : 2025:06:30 02:13:56.9Z''"
definition lat_line_a :: string where "lat_line_a = ''GPS Latitude : '' @ coord_example"

definition time_line_b :: string where "time_line_b = ''GPS Date/Time : 2025:06:30 02:13:57.9Z''"
definition lat_line_b :: string where
  "lat_line_b = ''GPS Latitude : 1 deg 0'' @ [apostrophe] @ '' 0'' @ [dquote] @ '' S''"
definition speed_line_b :: string where "speed_line_b = ''GPS Speed : 2''"

definition bad_time_line :: string where "bad_time_line = ''GPS Date/Time : garbage''"



definition time_example_b :: py_datetime where
  "time_example_b = \<lparr>year = 2025, month = 6, day = 30, hour = 2, minute = 13, second = 57\<rparr>"



definition state_a :: seg_state where
  "state_a = \<lparr>heap = [(new_point time_example)\<lparr>latitude := Finite (256511 / 7200)\<rparr>],
              gps_data = [], current_point = Some 0\<rparr>"

section \<open>The timestamp parser\<close>

lemma shape_chars: "shape t b \<Longrightarrow> c \<in> set b \<Longrightarrow> py_isdigit c \<or> (c \<in> set t \<and> c \<noteq> CHR ''d'')"
  by (induction t b rule: shape.induct) (auto split: if_splits)

lemma shape_hd: "shape (CHR ''d'' # ts) b \<Longrightarrow> b \<noteq> [] \<and> py_isdigit (hd b)"
  by (cases b) auto

lemma shape_Nil: "shape [] b = (b = [])"
  by (cases b) auto

lemma shape_last: "shape t b \<Longrightarrow> t \<noteq> [] \<Longrightarrow> last t = CHR ''d'' \<Longrightarrow> b \<noteq> [] \<and> py_isdigit (last b)"
  by (induction t b rule: shape.induct) (auto simp: shape_Nil split: if_splits)

lemma digit_not_space: "py_isdigit c \<Longrightarrow> \<not> py_isspace c"
  by (auto simp: py_isdigit_def py_isspace_def)

lemma dropWhile_hd: "s \<noteq> [] \<Longrightarrow> \<not> P (hd s) \<Longrightarrow> dropWhile P s = s"
  by (cases s) auto

lemma py_strip_id: "s \<noteq> [] \<Longrightarrow> \<not> py_isspace (hd s) \<Longrightarrow> \<not> py_isspace (last s) \<Longrightarrow> py_strip s = s"
  by (simp add: py_strip_def dropWhile_hd hd_rev)

lemma parse_gps_time_clean:
  assumes ne: "b \<noteq> []" and h: "\<not> py_isspace (hd b)" and l: "\<not> py_isspace (last b)"
    and z: "CHR ''Z'' \<notin> set b" and d: "CHR ''.'' \<notin> set b"
  shows "parse_gps_time (b @ ''.'' @ f @ ''Z'') = (case strptime b of Inl e \<Rightarrow> None | Inr t \<Rightarrow> Some t)"
    and "parse_gps_time (b @ ''Z'') = (case strptime b of Inl e \<Rightarrow> None | Inr t \<Rightarrow> Some t)"
proof -
  let ?f = "filter (\<lambda>c. c \<noteq> CHR ''Z'') f"
  have fb: "filter (\<lambda>c. c \<noteq> CHR ''Z'') b = b" using z by (auto simp: filter_id_conv)
  obtain c cs where b: "b = c # cs" using ne by (cases b) auto
  have c: "\<not> py_isspace c" using h b by simp
  have dot: "\<not> py_isspace (CHR ''.'')" by (simp add: py_isspace_def)
  have s1: "py_strip (b @ CHR ''.'' # ?f) = b @ CHR ''.'' # rev (dropWhile py_isspace (rev ?f))"
    using c dot by (simp add: py_strip_def b dropWhile_append3)
  have t1: "takeWhile (\<lambda>c. c \<noteq> CHR ''.'') (b @ CHR ''.'' # rev (dropWhile py_isspace (rev ?f))) = b"
    using d by (auto simp: takeWhile_tail)
  have "filter (\<lambda>c. c \<noteq> CHR ''Z'') (b @ ''.'' @ f @ ''Z'') = b @ ''.'' @ ?f"
    by (simp add: fb)
  then show "parse_gps_time (b @ ''.'' @ f @ ''Z'') =
               (case strptime b of Inl e \<Rightarrow> None | Inr t \<Rightarrow> Some t)"
    by (simp add: parse_gps_time_def Let_def s1 t1)
  have "filter (\<lambda>c. c \<noteq> CHR ''Z'') (b @ ''Z'') = b"
    by (simp add: fb)
  then show "parse_gps_time (b @ ''Z'') = (case strptime b of Inl e \<Rightarrow> None | Inr t \<Rightarrow> Some t)"
    using d py_strip_id [OF ne h l] by (simp add: parse_gps_time_def Let_def)
qed

lemma timestamp_base_facts:
  assumes "timestamp_base b"
  shows "b \<noteq> []" "\<not> py_isspace (hd b)" "\<not> py_isspace (last b)"
    "CHR ''Z'' \<notin> set b" "CHR ''.'' \<notin> set b"
proof -
  have sh: "shape ''dddd:dd:dd dd:dd:dd'' b" using assms by (simp add: timestamp_base_def)
  show "b \<noteq> []" "\<not> py_isspace (hd b)"
    using shape_hd [OF sh] digit_not_space by auto
  show "\<not> py_isspace (last b)"
    using shape_last [OF sh] digit_not_space by auto
  show "CHR ''Z'' \<notin> set b" "CHR ''.'' \<notin> set b"
    using shape_chars [OF sh] by (auto simp: py_isdigit_def)
qed

text \<open>
  Claim C7. For a timestamp \<open>b\<close> of the shape \<^verbatim>\<open>YYYY:MM:DD HH:MM:SS\<close> and any fraction
  \<open>f\<close>, the text \<open>b.fZ\<close> parses to what \<open>bZ\<close> parses to: the fraction is cut off, not
  rounded. The result is the date and time that \<^verbatim>\<open>strptime\<close> reads from \<open>b\<close>, and it is
  \<open>None\<close>, not an exception, when \<^verbatim>\<open>strptime\<close> raises.
\<close>

theorem parse_gps_time_truncates_fraction:
  assumes "timestamp_base b"
  shows "parse_gps_time (b @ ''.'' @ f @ ''Z'') = parse_gps_time (b @ ''Z'') \<and>
         parse_gps_time (b @ ''Z'') = (case strptime b of Inl e \<Rightarrow> None | Inr t \<Rightarrow> Some t)"
  using parse_gps_time_clean [OF timestamp_base_facts [OF assms]] by simp

theorem parse_gps_time_truncates_fraction_witness:
  "timestamp_base ''2025:06:30 02:13:56'' \<and>
   parse_gps_time ''2025:06:30 02:13:56.9Z'' = parse_gps_time ''2025:06:30 02:13:56Z'' \<and>
   parse_gps_time ''2025:06:30 02:13:56Z'' = Some time_example"
proof -
  have h: "timestamp_base ''2025:06:30 02:13:56''" by code_simp
  have v: "strptime ''2025:06:30 02:13:56'' = Inr time_example" by code_simp
  from parse_gps_time_truncates_fraction [OF h, of "''9''"] h v
  show ?thesis by simp
qed

section \<open>The coordinate parser\<close>




























text \<open>A string that the pattern does not match gives \<^verbatim>\<open>0.0\<close>.\<close>

lemma parse_coordinate_no_match: "coord_match s = None \<Longrightarrow> parse_coordinate s = Inr (Finite 0)"
  by (simp add: parse_coordinate_def)



text \<open>
  Claim C3. The specification says that every string that is not of the form
  \<^verbatim>\<open>D deg M' S" H\<close> gives \<^verbatim>\<open>0.0\<close> and no error. The pattern of the source accepts any run of
  digits and points as the seconds, and the conversion of that run to a number is not
  guarded: for \<^verbatim>\<open>35 deg 37' 1.2.3" N\<close> the function raises \<^verbatim>\<open>ValueError\<close>.
\<close>

theorem parse_coordinate_bad_seconds_raises:
  "parse_coordinate coord_bad_seconds = Inl ValueError"
  by code_simp

section \<open>The run as a whole\<close>

text \<open>\<^verbatim>\<open>all_data\<close> is empty exactly when every file gives no point.\<close>

lemma process_files_empty:
  "snd (process_files e fs) = [] \<longleftrightarrow>
     (\<forall>f\<in>set fs. snd (extract_gps_data (run_exiftool e) f) = [])"
  by (induction fs) (auto split: prod.splits)

text \<open>Every run that passes the checks, finds files and gets no point from any of them
  prints the message last, writes no CSV file and ends with exit status 0.\<close>

lemma main_no_points:
  assumes "2 \<le> length (argv e)" and "path_exists e (argv e ! 1)" and "exiftool_available e"
    and "candidate_files e \<noteq> []"
    and "\<forall>f\<in>set (candidate_files e). snd (extract_gps_data (run_exiftool e) f) = []"
  shows "exit_status (main e) = 0 \<and> csv_written (main e) = None \<and>
         last (printed (main e)) = MsgNoGpsData"
proof -
  have "snd (process_files e (candidate_files e)) = []"
    using assms(5) by (simp add: process_files_empty)
  then show ?thesis
    using assms(1-4)
    by (auto simp: main_def candidate_files_def Let_def split: prod.splits if_splits)
qed

text \<open>
  Claim C2. The specification says that a run in which no file yields a GPS point ends
  with a non-zero exit status. On such a run \<^verbatim>\<open>main\<close> prints its message and writes no
  CSV file, but then returns, so the exit status is 0; the other fatal branches call
  \<^verbatim>\<open>sys.exit(1)\<close>.
\<close>

theorem main_no_gps_data_exits_zero:
  "main env_no_gps =
     \<lparr>printed = [MsgSearching ''/d'', MsgFound 1, MsgAnalyzing ''a.LRV'', MsgExtracted 0,
                 MsgNoGpsData],
      csv_written = None,
      exit_status = 0\<rparr>"
  by code_simp

section \<open>The segmenter\<close>

subsection \<open>The loop over lines that start no new point\<close>

lemma seg_loop_append:
  "seg_loop st (xs @ ys) = (case seg_loop st xs of Inl e \<Rightarrow> Inl e | Inr st' \<Rightarrow> seg_loop st' ys)"
  by (induction xs arbitrary: st) (auto split: sum.splits)

lemma seg_line_field:
  assumes "kind_of l \<noteq> DateTimeLine" and "current_point st = Some a"
  shows "seg_line st l =
           (case apply_field l (heap st ! a) of
              Inl e \<Rightarrow> Inl e
            | Inr p \<Rightarrow> Inr (st\<lparr>heap := (heap st)[a := p]\<rparr>))"
  using assms
  by (auto simp: seg_line_def kind_of_def apply_field_def update_current_def
           split: if_splits sum.splits)


lemma seg_line_bad_time:
  assumes "kind_of l = DateTimeLine" and "time_of_line l = Inr None"
  shows "seg_line st l = Inr (append_current st)"
  using assms by (auto simp: seg_line_def kind_of_def split: if_splits)

lemma seg_line_new_point:
  assumes "kind_of l = DateTimeLine" and "time_of_line l = Inr (Some t)"
  shows "seg_line st l =
           Inr \<lparr>heap = heap st @ [new_point t],
                gps_data = gps_data (append_current st),
                current_point = Some (length (heap st))\<rparr>"
  using assms
  by (auto simp: seg_line_def kind_of_def append_current_def Let_def split: if_splits option.splits)


lemma seg_loop_no_new_point:
  assumes "current_point st = Some a" and "a < length (heap st)"
    and "\<forall>l\<in>set seg. kind_of l = DateTimeLine \<longrightarrow> time_of_line l = Inr None"
  shows "seg_loop st seg =
           (case apply_fields seg (heap st ! a) of
              Inl e \<Rightarrow> Inl e
            | Inr p \<Rightarrow>
                Inr (st\<lparr>heap := (heap st)[a := p],
                        gps_data := gps_data st @
                          replicate (length (lines_of_kind DateTimeLine seg)) a\<rparr>))"
  using assms
proof (induction seg arbitrary: st)
  case Nil
  then show ?case by (simp add: lines_of_kind_def)
next
  case (Cons l ls)
  show ?case
  proof (cases "kind_of l = DateTimeLine")
    case True
    then have bad: "time_of_line l = Inr None" using Cons.prems(3) by simp
    let ?st = "append_current st"
    have st: "?st = st\<lparr>gps_data := gps_data st @ [a]\<rparr>"
      using Cons.prems(1) by (simp add: append_current_def)
    have f: "apply_field l (heap st ! a) = Inr (heap st ! a)"
      using True by (simp add: apply_field_def)
    have "seg_loop st (l # ls) = seg_loop ?st ls"
      using seg_line_bad_time [OF True bad] by simp
    also have "\<dots> = (case apply_fields ls (heap ?st ! a) of
              Inl e \<Rightarrow> Inl e
            | Inr p \<Rightarrow>
                Inr (?st\<lparr>heap := (heap ?st)[a := p],
                        gps_data := gps_data ?st @
                          replicate (length (lines_of_kind DateTimeLine ls)) a\<rparr>))"
      using Cons.prems by (intro Cons.IH) (simp_all add: st)
    finally show ?thesis
      using True by (simp add: st f lines_of_kind_def replicate_app_Cons_same split: sum.splits)
  next
    case False
    show ?thesis
    proof (cases "apply_field l (heap st ! a)")
      case (Inl e)
      then show ?thesis using seg_line_field [OF False Cons.prems(1)] by simp
    next
      case (Inr p1)
      let ?st = "st\<lparr>heap := (heap st)[a := p1]\<rparr>"
      have "seg_loop st (l # ls) = seg_loop ?st ls"
        using seg_line_field [OF False Cons.prems(1)] Inr by simp
      also have "\<dots> = (case apply_fields ls (heap ?st ! a) of
              Inl e \<Rightarrow> Inl e
            | Inr p \<Rightarrow>
                Inr (?st\<lparr>heap := (heap ?st)[a := p],
                        gps_data := gps_data ?st @
                          replicate (length (lines_of_kind DateTimeLine ls)) a\<rparr>))"
        using Cons.prems by (intro Cons.IH) simp_all
      finally show ?thesis
        using False Inr Cons.prems(2) by (simp add: lines_of_kind_def split: sum.splits)
    qed
  qed
qed

lemma seg_line_wf: "wf_state st \<Longrightarrow> seg_line st l = Inr st' \<Longrightarrow> wf_state st'"
  by (auto simp: wf_state_def seg_line_def update_current_def append_current_def Let_def
           split: if_splits option.splits sum.splits)

lemma seg_loop_wf: "wf_state st \<Longrightarrow> seg_loop st ls = Inr st' \<Longrightarrow> wf_state st'"
  by (induction ls arbitrary: st) (auto split: sum.splits dest: seg_line_wf)

lemma init_wf: "wf_state init_state"
  by (simp add: wf_state_def init_state_def)


lemma apply_field_datetime: "apply_field l p = Inr p' \<Longrightarrow> datetime p' = datetime p"
  by (auto simp: apply_field_def split: line_kind.splits sum.splits)

lemma apply_fields_datetime: "apply_fields ls p = Inr p' \<Longrightarrow> datetime p' = datetime p"
  by (induction ls arbitrary: p) (auto split: sum.splits dest: apply_field_datetime)





subsection \<open>The properties\<close>




text \<open>
  Claim C6. Let the lines \<open>pre\<close> be processed without an exception, let \<open>d\<close> be a
  \<^verbatim>\<open>GPS Date/Time\<close> line whose time parses to \<open>t\<close>, and let no \<^verbatim>\<open>GPS Date/Time\<close> line follow
  it. When the field lines after \<open>d\<close> are processed without an exception, giving the
  point the contents \<open>p\<close>, the segmenter returns a result whose last element is that
  point: it has the time \<open>t\<close> and the contents \<open>p\<close>.
\<close>

theorem segmenter_flushes_last_point:
  assumes pre: "seg_loop init_state pre = Inr st0"
    and d: "kind_of d = DateTimeLine" "time_of_line d = Inr (Some t)"
    and post: "lines_of_kind DateTimeLine post = []"
    and fields: "apply_fields post (new_point t) = Inr p"
  shows "segmenter (pre @ d # post) =
           Inr \<lparr>heap = heap st0 @ [p],
                gps_data = gps_data (append_current st0) @ [length (heap st0)],
                current_point = Some (length (heap st0))\<rparr> \<and>
         map_sum id (last \<circ> points_of) (segmenter (pre @ d # post)) = Inr p \<and>
         datetime p = t"
proof -
  let ?a = "length (heap st0)"
  let ?st1 = "\<lparr>heap = heap st0 @ [new_point t], gps_data = gps_data (append_current st0),
               current_point = Some ?a\<rparr>"
  let ?st2 = "\<lparr>heap = heap st0 @ [p], gps_data = gps_data (append_current st0),
               current_point = Some ?a\<rparr>"
  let ?st3 = "\<lparr>heap = heap st0 @ [p], gps_data = gps_data (append_current st0) @ [?a],
               current_point = Some ?a\<rparr>"
  have l1: "seg_line st0 d = Inr ?st1"
    using seg_line_new_point [OF d] .
  have no: "\<forall>l\<in>set post. kind_of l = DateTimeLine \<longrightarrow> time_of_line l = Inr None"
    using post by (auto simp: lines_of_kind_def filter_empty_conv)
  have l2: "seg_loop ?st1 post = Inr ?st2"
    using seg_loop_no_new_point [of ?st1 ?a post] no fields post by simp
  have "seg_loop init_state (pre @ d # post) = Inr ?st2"
    by (simp add: seg_loop_append pre l1 l2)
  then have s: "segmenter (pre @ d # post) = Inr ?st3"
    by (simp add: segmenter_def append_current_def)
  have "last (points_of ?st3) = p"
    by (simp add: points_of_def)
  moreover have "datetime p = t"
    using apply_fields_datetime [OF fields] by (simp add: new_point_def)
  ultimately show ?thesis using s by simp
qed


theorem segmenter_flushes_last_point_witness:
  "seg_loop init_state [time_line_a, lat_line_a] = Inr state_a \<and>
   kind_of time_line_b = DateTimeLine \<and> time_of_line time_line_b = Inr (Some time_example_b) \<and>
   lines_of_kind DateTimeLine [lat_line_b, [], speed_line_b] = [] \<and>
   apply_fields [lat_line_b, [], speed_line_b] (new_point time_example_b) =
     Inr ((new_point time_example_b)\<lparr>latitude := Finite (- 1), speed := Finite 2\<rparr>) \<and>
   map_sum id (last \<circ> points_of)
     (segmenter ([time_line_a, lat_line_a] @ time_line_b # [lat_line_b, [], speed_line_b])) =
     Inr ((new_point time_example_b)\<lparr>latitude := Finite (- 1), speed := Finite 2\<rparr>)"
proof -
  have h1: "seg_loop init_state [time_line_a, lat_line_a] = Inr state_a" by code_simp
  have h2: "kind_of time_line_b = DateTimeLine" by code_simp
  have h3: "time_of_line time_line_b = Inr (Some time_example_b)" by code_simp
  have h4: "lines_of_kind DateTimeLine [lat_line_b, [], speed_line_b] = []" by code_simp
  have h5: "apply_fields [lat_line_b, [], speed_line_b] (new_point time_example_b) =
     Inr ((new_point time_example_b)\<lparr>latitude := Finite (- 1), speed := Finite 2\<rparr>)"
    by code_simp
  from segmenter_flushes_last_point [OF h1 h2 h3 h4 h5]
  have "map_sum id (last \<circ> points_of)
     (segmenter ([time_line_a, lat_line_a] @ time_line_b # [lat_line_b, [], speed_line_b])) =
     Inr ((new_point time_example_b)\<lparr>latitude := Finite (- 1), speed := Finite 2\<rparr>)"
    by blast
  with h1 h2 h3 h4 h5 show ?thesis by blast
qed

text \<open>
  Claim C9. Let the loop have reached a state \<open>st0\<close> in which \<^verbatim>\<open>current_point\<close> refers to a
  point \<open>a\<close>. A \<^verbatim>\<open>GPS Date/Time\<close> line whose time does not parse appends \<open>a\<close> to the result
  and leaves \<^verbatim>\<open>current_point\<close> referring to it. The field lines after it then write to
  that point (its contents become \<open>p\<close>), and when no later \<^verbatim>\<open>GPS Date/Time\<close> line parses,
  the end of the input appends \<open>a\<close> again: the result ends with the same point twice, and
  once more for each further unparsable \<^verbatim>\<open>GPS Date/Time\<close> line.
\<close>

theorem segmenter_unparsable_time_duplicates_point:
  assumes pre: "seg_loop init_state pre = Inr st0"
    and cur: "current_point st0 = Some a"
    and bad: "kind_of b = DateTimeLine" "time_of_line b = Inr None"
    and post: "\<forall>l\<in>set post. kind_of l = DateTimeLine \<longrightarrow> time_of_line l = Inr None"
    and fields: "apply_fields post (heap st0 ! a) = Inr p"
  shows "seg_line st0 b = Inr (st0\<lparr>gps_data := gps_data st0 @ [a]\<rparr>) \<and>
         segmenter (pre @ b # post) =
           Inr (st0\<lparr>heap := (heap st0)[a := p],
                    gps_data := gps_data st0 @ a # a #
                      replicate (length (lines_of_kind DateTimeLine post)) a\<rparr>) \<and>
         (\<exists>ps. map_sum id points_of (segmenter (pre @ b # post)) =
                 Inr (ps @ p # p # replicate (length (lines_of_kind DateTimeLine post)) p))"
proof -
  have a: "a < length (heap st0)"
    using seg_loop_wf [OF init_wf pre] cur by (simp add: wf_state_def)
  let ?k = "length (lines_of_kind DateTimeLine post)"
  let ?st1 = "st0\<lparr>gps_data := gps_data st0 @ [a]\<rparr>"
  let ?st2 = "st0\<lparr>heap := (heap st0)[a := p], gps_data := gps_data st0 @ a # replicate ?k a\<rparr>"
  let ?st3 = "st0\<lparr>heap := (heap st0)[a := p], gps_data := gps_data st0 @ a # a # replicate ?k a\<rparr>"
  have l1: "seg_line st0 b = Inr ?st1"
    using seg_line_bad_time [OF bad, of st0] cur by (simp add: append_current_def)
  have l2: "seg_loop ?st1 post = Inr ?st2"
    using seg_loop_no_new_point [of ?st1 a post] cur a post fields by simp
  have "seg_loop init_state (pre @ b # post) = Inr ?st2"
    by (simp add: seg_loop_append pre l1 l2)
  then have s: "segmenter (pre @ b # post) = Inr ?st3"
    using cur by (simp add: segmenter_def append_current_def replicate_append_same)
  have "points_of ?st3 =
          map (\<lambda>r. (heap st0)[a := p] ! r) (gps_data st0) @ p # p # replicate ?k p"
    using a by (simp add: points_of_def)
  with l1 s show ?thesis by simp
qed

theorem segmenter_unparsable_time_duplicates_point_witness:
  "seg_loop init_state [time_line_a, lat_line_a] = Inr state_a \<and>
   current_point state_a = Some 0 \<and>
   kind_of bad_time_line = DateTimeLine \<and> time_of_line bad_time_line = Inr None \<and>
   lines_of_kind DateTimeLine [lat_line_b] = [] \<and>
   apply_fields [lat_line_b] (heap state_a ! 0) =
     Inr ((new_point time_example)\<lparr>latitude := Finite (- 1)\<rparr>) \<and>
   segmenter ([time_line_a, lat_line_a] @ bad_time_line # [lat_line_b]) =
     Inr \<lparr>heap = [(new_point time_example)\<lparr>latitude := Finite (- 1)\<rparr>],
          gps_data = [0, 0], current_point = Some 0\<rparr>"
proof -
  have h1: "seg_loop init_state [time_line_a, lat_line_a] = Inr state_a" by code_simp
  have h2: "current_point state_a = Some 0" by code_simp
  have h3: "kind_of bad_time_line = DateTimeLine" by code_simp
  have h4: "time_of_line bad_time_line = Inr None" by code_simp
  have h5: "\<forall>l\<in>set [lat_line_b]. kind_of l = DateTimeLine \<longrightarrow> time_of_line l = Inr None"
    by code_simp
  have h6: "apply_fields [lat_line_b] (heap state_a ! 0) =
     Inr ((new_point time_example)\<lparr>latitude := Finite (- 1)\<rparr>)" by code_simp
  have k: "lines_of_kind DateTimeLine [lat_line_b] = []" by code_simp
  from segmenter_unparsable_time_duplicates_point [OF h1 h2 h3 h4 h5 h6]
  have "segmenter ([time_line_a, lat_line_a] @ bad_time_line # [lat_line_b]) =
     Inr \<lparr>heap = [(new_point time_example)\<lparr>latitude := Finite (- 1)\<rparr>],
          gps_data = [0, 0], current_point = Some 0\<rparr>"
    by (simp add: k state_a_def)
  with h1 h2 h3 h4 k h6 show ?thesis by blast
qed

text \<open>
  Claim C1. The specification says that after a \<^verbatim>\<open>GPS Date/Time\<close> line whose time does not
  parse there is no current point and the following field lines are dropped. The source
  assigns \<^verbatim>\<open>current_point\<close> only when the time parses, so after a failed parse the variable
  still refers to the point before: here the latitude line after the unparsable time
  overwrites the latitude of the first point (1 instead of 35.625), and that point is in
  the result twice.
\<close>

theorem segmenter_unparsable_time_keeps_point:
  "segmenter [''GPS Date/Time : 2025:06:30 02:13:56Z'',
              ''GPS Latitude : 35 deg 37'' @ [apostrophe] @ '' 30'' @ [dquote] @ '' N'',
              ''GPS Date/Time : garbage'',
              ''GPS Latitude : 1 deg 0'' @ [apostrophe] @ '' 0'' @ [dquote] @ '' N'']
   = Inr \<lparr>heap = [(new_point time_example)\<lparr>latitude := Finite 1\<rparr>],
          gps_data = [0, 0],
          current_point = Some 0\<rparr>"
  by code_simp

text \<open>
  Claim C8. The specification says that malformed field text never aborts a file. The
  loop runs inside \<^verbatim>\<open>try\<close>, and two failures are not guarded closer to where they happen:
  the \<^verbatim>\<open>ValueError\<close> of a latitude or longitude whose seconds are not a number, and the
  \<^verbatim>\<open>IndexError\<close> of a date, latitude or longitude marker line without a colon. Both end in
  the handler of line 136, which prints an error and returns the empty list: the point
  of the well-formed first segment is lost.
\<close>

theorem extract_gps_data_malformed_field_aborts_file:
  "extract_gps_data (\<lambda>p. Completed 0 output_good []) ''a.lrv'' =
     ([MsgAnalyzing ''a.lrv'', MsgExtracted 1],
      [(new_point time_example)\<lparr>latitude := Finite (256511 / 7200)\<rparr>]) \<and>
   extract_gps_data (\<lambda>p. Completed 0 output_bad_seconds []) ''a.lrv'' =
     ([MsgAnalyzing ''a.lrv'', MsgException ''a.lrv''], []) \<and>
   extract_gps_data (\<lambda>p. Completed 0 output_no_colon []) ''a.lrv'' =
     ([MsgAnalyzing ''a.lrv'', MsgException ''a.lrv''], [])"
  by code_simp

end
